theory Spec2Isabelle
  imports Main "HOL-Library.Sublist"
begin

section \<open>The edition tag of wz-code: \<open>WZVersion\<close> (models.py)\<close>

text \<open>
  Python strings are modelled as \<^typ>\<open>string\<close>: the list of the bytes of the
  string's UTF-8 encoding. Equality of strings and the substring test
  (\<^verbatim>\<open>a in b\<close>, here \<^const>\<open>sublist\<close>) are the only string operations the
  edition tag uses, and both read the same on code points and on their encoding.
\<close>

subsection \<open>The enumeration\<close>

text \<open>
  \<^verbatim>\<open>class WZVersion(str, Enum)\<close> with the members
  \<^verbatim>\<open>WZ_2008 = "2008"\<close> and \<^verbatim>\<open>WZ_2025 = "2025"\<close>.
\<close>

datatype WZVersion = WZ_2008 | WZ_2025

text \<open>The \<^verbatim>\<open>value\<close> attribute of a member.\<close>

fun value_of :: "WZVersion \<Rightarrow> string" where
  "value_of WZ_2008 = ''2008''"
| "value_of WZ_2025 = ''2025''"

text \<open>Iterating the class (\<^verbatim>\<open>for v in cls\<close>) yields the members in the order
  of their definition.\<close>

definition WZVersion_members :: "WZVersion list" where
  "WZVersion_members = [WZ_2008, WZ_2025]"

text \<open>
  \<^verbatim>\<open>cls(version)\<close>: the enumeration's lookup of a member by value. \<open>None\<close>
  is the \<^verbatim>\<open>ValueError\<close> the lookup raises when no member has the value;
  \<^verbatim>\<open>from_string\<close> catches it and drops its message (\<^verbatim>\<open>from None\<close>).
\<close>

definition WZVersion_call :: "string \<Rightarrow> WZVersion option" where
  "WZVersion_call v = find (\<lambda>m. value_of m = v) WZVersion_members"

text \<open>\<^verbatim>\<open>__str__\<close> returns \<^verbatim>\<open>self.value\<close>.\<close>

definition WZVersion_str :: "WZVersion \<Rightarrow> string" where
  "WZVersion_str self = value_of self"

text \<open>
  \<^verbatim>\<open>__eq__\<close> against a plain string. The class mixes in \<^verbatim>\<open>str\<close> and
  \<^verbatim>\<open>Enum\<close> defines no comparison of its own, so a member is compared as the
  string it was created from: its value.
\<close>

definition WZVersion_eq :: "WZVersion \<Rightarrow> string \<Rightarrow> bool" where
  "WZVersion_eq self other \<longleftrightarrow> value_of self = other"

subsection \<open>Formatting the error message\<close>

text \<open>
  \<^verbatim>\<open>repr\<close> of a string that holds neither a quote nor a backslash nor a
  non-printable character: the string between single quotes. It is applied to the
  members' values only.
\<close>

definition str_repr :: "string \<Rightarrow> string" where
  "str_repr s = [CHR 0x27] @ s @ [CHR 0x27]"

text \<open>\<^verbatim>\<open>sep.join(xs)\<close>.\<close>

fun join :: "string \<Rightarrow> string list \<Rightarrow> string" where
  "join sep [] = []"
| "join sep [x] = x"
| "join sep (x # y # ys) = x @ sep @ join sep (y # ys)"

text \<open>What an f-string writes for a list of strings: \<^verbatim>\<open>str\<close> of a list is the
  \<^verbatim>\<open>repr\<close> of its elements, separated by a comma and a space, in brackets.\<close>

definition list_repr :: "string list \<Rightarrow> string" where
  "list_repr xs = ''['' @ join '', '' (map str_repr xs) @ '']''"

subsection \<open>\<open>WZVersion.from_string\<close>\<close>

text \<open>
  The exceptions, each with its message: \<^verbatim>\<open>ValueError\<close>, which
  \<^verbatim>\<open>from_string\<close> raises, and \<^verbatim>\<open>WZVersionError\<close>, which the tests
  expect from the facade.
\<close>

datatype error =
    ValueError string
  | WZVersionError string

text \<open>
  \<^verbatim>\<open>
  try:
      return cls(version)
  except ValueError:
      valid_versions = [v.value for v in cls]
      raise ValueError(
          f"Invalid WZ version '{version}'. Valid versions: {valid_versions}"
      ) from None
  \<close>
\<close>

definition from_string :: "string \<Rightarrow> error + WZVersion" where
  "from_string version =
     (case WZVersion_call version of
        Some m \<Rightarrow> Inr m
      | None \<Rightarrow>
          (let valid_versions = map value_of WZVersion_members
           in Inl (ValueError
                (''Invalid WZ version '' @ [CHR 0x27] @ version @ [CHR 0x27]
                 @ ''. Valid versions: '' @ list_repr valid_versions))))"

text \<open>The message of that error, written out for an identifier \<open>version\<close>.\<close>

definition invalid_version_message :: "string \<Rightarrow> string" where
  "invalid_version_message version =
     ''Invalid WZ version '' @ [CHR 0x27] @ version @ [CHR 0x27]
       @ ''. Valid versions: ['' @ [CHR 0x27] @ ''2008'' @ [CHR 0x27] @ '', ''
       @ [CHR 0x27] @ ''2025'' @ [CHR 0x27] @ '']''"

section \<open>The registry facade's use of the edition tag\<close>

text \<open>
  Modelled from the spec: the facade's normalisation of an edition identifier. The
  core module with the facade class \<^verbatim>\<open>WZ\<close> and the exception class
  \<^verbatim>\<open>WZVersionError\<close> is missing from the sources; the tests import both.
  The spec (4.4): the facade "accepts an edition identifier as a free-form string or
  the enumerated Edition type; normalizes, and fails with a version error -- message
  includes the offending value and both valid values -- if neither matches", through
  "a factory that maps a free-form string to" the tag (9), which is
  \<^const>\<open>from_string\<close>. The factory's \<^verbatim>\<open>ValueError\<close> surfaces as the
  version error with the message unchanged. A member of the enumeration is itself a
  string (its value), so the string case covers it.
\<close>

definition normalize_version :: "string \<Rightarrow> error + WZVersion" where
  "normalize_version version =
     (case from_string version of
        Inl (ValueError msg) \<Rightarrow> Inl (WZVersionError msg)
      | Inl e \<Rightarrow> Inl e
      | Inr v \<Rightarrow> Inr v)"

text \<open>
  The facade object: its edition (the attribute \<^verbatim>\<open>_version\<close> the tests read)
  and the stores built for that edition, of a type \<open>'d\<close> left open.
\<close>

record 'd WZ =
  wz_version :: WZVersion
  wz_data :: 'd

text \<open>
  Modelled from the spec: the constructor \<^verbatim>\<open>WZ(version=...)\<close>, missing from the
  sources. The spec (2, 4.4): the identifier is validated, then the facade "eagerly
  builds the Entry Store and Correspondence Engine from the external data source",
  "an opaque, pre-validated data source" (1): here the parameter \<open>source\<close>, which
  gives the stores of an edition.
\<close>

definition WZ_init :: "(WZVersion \<Rightarrow> 'd) \<Rightarrow> string \<Rightarrow> error + 'd WZ" where
  "WZ_init source version =
     (case normalize_version version of
        Inl e \<Rightarrow> Inl e
      | Inr v \<Rightarrow> Inr \<lparr>wz_version = v, wz_data = source v\<rparr>)"

text \<open>
  Modelled from the spec: \<^verbatim>\<open>find_equivalent(code, target_version)\<close>, missing
  from the sources. The spec (4.3): it "validates targetEdition is one of the two
  recognized editions, failing with a version error (naming the invalid value and the
  two valid values) if not; returns an empty sequence immediately if targetEdition ==
  edition; otherwise returns correspondencesOf resolved into CodeViews in the target
  edition". The last step reads the concordance data and is the parameter
  \<open>resolve\<close>.
\<close>

definition find_equivalent ::
    "('d WZ \<Rightarrow> string \<Rightarrow> WZVersion \<Rightarrow> 'v list) \<Rightarrow> 'd WZ \<Rightarrow> string \<Rightarrow> string \<Rightarrow> error + 'v list" where
  "find_equivalent resolve self code target_version =
     (case normalize_version target_version of
        Inl e \<Rightarrow> Inl e
      | Inr target \<Rightarrow>
          if target = wz_version self then Inr []
          else Inr (resolve self code target))"

section \<open>Properties of the edition tag\<close>

subsection \<open>The lookup by value\<close>

lemma value_of_cases: "value_of m = ''2008'' \<or> value_of m = ''2025''"
  by (cases m) simp_all

lemma value_of_inject: "value_of m = value_of m' \<longleftrightarrow> m = m'"
  by (cases m; cases m') simp_all

text \<open>The members' values hold no quote and no backslash, so \<^const>\<open>str_repr\<close> is
  their \<^verbatim>\<open>repr\<close>.\<close>

lemma value_of_plain:
  "CHR 0x27 \<notin> set (value_of m) \<and> CHR 0x22 \<notin> set (value_of m) \<and> CHR 0x5C \<notin> set (value_of m)"
  by (cases m) simp_all

lemma WZVersion_call_Some_iff: "WZVersion_call v = Some m \<longleftrightarrow> value_of m = v"
  by (cases m) (auto simp: WZVersion_call_def WZVersion_members_def)

lemma WZVersion_call_None_iff: "WZVersion_call v = None \<longleftrightarrow> v \<notin> {''2008'', ''2025''}"
  by (auto simp: WZVersion_call_def WZVersion_members_def)

lemma WZVersion_call_value_of: "WZVersion_call (value_of m) = Some m"
  by (simp add: WZVersion_call_Some_iff)

subsection \<open>The error message\<close>

lemma list_repr_valid_versions:
  "list_repr (map value_of WZVersion_members)
     = ''['' @ [CHR 0x27] @ ''2008'' @ [CHR 0x27] @ '', '' @ [CHR 0x27] @ ''2025'' @ [CHR 0x27] @ '']''"
  by (simp add: WZVersion_members_def list_repr_def str_repr_def)

lemma invalid_version_message_version: "sublist version (invalid_version_message version)"
proof -
  have "invalid_version_message version
          = (''Invalid WZ version '' @ [CHR 0x27]) @ version
            @ ([CHR 0x27] @ ''. Valid versions: ['' @ [CHR 0x27] @ ''2008'' @ [CHR 0x27] @ '', ''
               @ [CHR 0x27] @ ''2025'' @ [CHR 0x27] @ '']'')"
    by (simp add: invalid_version_message_def)
  then show ?thesis
    by (simp only: sublist_appendI)
qed

lemma invalid_version_message_2008: "sublist ''2008'' (invalid_version_message version)"
proof -
  have "invalid_version_message version
          = (''Invalid WZ version '' @ [CHR 0x27] @ version @ [CHR 0x27]
               @ ''. Valid versions: ['' @ [CHR 0x27])
            @ ''2008'' @ ([CHR 0x27] @ '', '' @ [CHR 0x27] @ ''2025'' @ [CHR 0x27] @ '']'')"
    by (simp add: invalid_version_message_def)
  then show ?thesis
    by (simp only: sublist_appendI)
qed

lemma invalid_version_message_2025: "sublist ''2025'' (invalid_version_message version)"
proof -
  have "invalid_version_message version
          = (''Invalid WZ version '' @ [CHR 0x27] @ version @ [CHR 0x27]
               @ ''. Valid versions: ['' @ [CHR 0x27] @ ''2008'' @ [CHR 0x27] @ '', '' @ [CHR 0x27])
            @ ''2025'' @ ([CHR 0x27] @ '']'')"
    by (simp add: invalid_version_message_def)
  then show ?thesis
    by (simp only: sublist_appendI)
qed

subsection \<open>\<open>from_string\<close>\<close>

lemma from_string_Inr_iff: "from_string version = Inr m \<longleftrightarrow> value_of m = version"
  by (auto simp: from_string_def Let_def WZVersion_call_Some_iff WZVersion_call_value_of
        value_of_inject split: option.splits)

lemma from_string_value_of: "from_string (value_of m) = Inr m"
  by (simp add: from_string_Inr_iff)

lemma from_string_invalid:
  assumes "version \<notin> {''2008'', ''2025''}"
  shows "from_string version = Inl (ValueError (invalid_version_message version))"
proof -
  from assms have "WZVersion_call version = None"
    by (simp add: WZVersion_call_None_iff)
  then show ?thesis
    by (simp add: from_string_def list_repr_valid_versions invalid_version_message_def)
qed

lemma from_string_valid:
  assumes "version \<in> {''2008'', ''2025''}"
  shows "\<exists>m. from_string version = Inr m \<and> value_of m = version"
proof -
  from assms have "version = value_of WZ_2008 \<or> version = value_of WZ_2025"
    by simp
  then obtain m where "value_of m = version"
    by metis
  then show ?thesis
    by (auto simp: from_string_Inr_iff)
qed

lemma from_string_never_version_error: "from_string version \<noteq> Inl (WZVersionError msg)"
  by (simp add: from_string_def Let_def split: option.splits)

lemma normalize_version_invalid:
  assumes "version \<notin> {''2008'', ''2025''}"
  shows "normalize_version version = Inl (WZVersionError (invalid_version_message version))"
  by (simp add: normalize_version_def from_string_invalid[OF assms])

lemma normalize_version_Inr_iff: "normalize_version version = Inr m \<longleftrightarrow> value_of m = version"
  by (auto simp: normalize_version_def from_string_Inr_iff from_string_value_of
        value_of_inject split: sum.splits error.splits)

section \<open>The claims settled on the edition tag\<close>

text \<open>
  C1. An edition identifier outside \<open>"2008"\<close> and \<open>"2025"\<close> is refused:
  \<^const>\<open>from_string\<close> raises, the facade's constructor and \<^const>\<open>find_equivalent\<close>
  (for its target edition) raise the version error, and the message holds the offending
  identifier and both valid values as substrings. For the two recognized identifiers
  \<^const>\<open>from_string\<close> returns the member whose string is the identifier, and
  construction succeeds with that edition.
\<close>

theorem invalid_version_raises_version_error:
  fixes source :: "WZVersion \<Rightarrow> 'd"
    and resolve :: "'d WZ \<Rightarrow> string \<Rightarrow> WZVersion \<Rightarrow> 'v list"
  shows
  "(version \<notin> {''2008'', ''2025''} \<longrightarrow>
      (\<exists>msg. from_string version = Inl (ValueError msg)
          \<and> WZ_init source version = Inl (WZVersionError msg)
          \<and> find_equivalent resolve self code version = Inl (WZVersionError msg)
          \<and> sublist version msg \<and> sublist ''2008'' msg \<and> sublist ''2025'' msg))
   \<and> (version \<in> {''2008'', ''2025''} \<longrightarrow>
      (\<exists>m. from_string version = Inr m \<and> WZVersion_str m = version
          \<and> WZ_init source version = Inr \<lparr>wz_version = m, wz_data = source m\<rparr>))"
proof (intro conjI impI)
  assume bad: "version \<notin> {''2008'', ''2025''}"
  let ?msg = "invalid_version_message version"
  have "from_string version = Inl (ValueError ?msg)"
    using bad by (rule from_string_invalid)
  moreover have "WZ_init source version = Inl (WZVersionError ?msg)"
    by (simp add: WZ_init_def normalize_version_invalid[OF bad])
  moreover have "find_equivalent resolve self code version = Inl (WZVersionError ?msg)"
    by (simp add: find_equivalent_def normalize_version_invalid[OF bad])
  ultimately show "\<exists>msg. from_string version = Inl (ValueError msg)
          \<and> WZ_init source version = Inl (WZVersionError msg)
          \<and> find_equivalent resolve self code version = Inl (WZVersionError msg)
          \<and> sublist version msg \<and> sublist ''2008'' msg \<and> sublist ''2025'' msg"
    using invalid_version_message_version invalid_version_message_2008
      invalid_version_message_2025 by blast
next
  assume "version \<in> {''2008'', ''2025''}"
  then obtain m where m: "from_string version = Inr m" "value_of m = version"
    using from_string_valid by blast
  then have "normalize_version version = Inr m"
    by (simp add: normalize_version_Inr_iff)
  then have "WZ_init source version = Inr \<lparr>wz_version = m, wz_data = source m\<rparr>"
    by (simp add: WZ_init_def)
  with m show "\<exists>m. from_string version = Inr m \<and> WZVersion_str m = version
          \<and> WZ_init source version = Inr \<lparr>wz_version = m, wz_data = source m\<rparr>"
    by (auto simp: WZVersion_str_def)
qed

theorem invalid_version_2020_witness:
  "''2020'' \<notin> {''2008'', ''2025''}
   \<and> (\<exists>msg. from_string ''2020'' = Inl (ValueError msg)
          \<and> WZ_init (\<lambda>v. ()) ''2020'' = Inl (WZVersionError msg)
          \<and> find_equivalent (\<lambda>w c t. ([] :: string list)) \<lparr>wz_version = WZ_2025, wz_data = ()\<rparr>
                ''01.13.1'' ''2020'' = Inl (WZVersionError msg)
          \<and> sublist ''2020'' msg \<and> sublist ''2008'' msg \<and> sublist ''2025'' msg)
   \<and> ''2025'' \<in> {''2008'', ''2025''}
   \<and> (\<exists>m. from_string ''2025'' = Inr m \<and> WZVersion_str m = ''2025''
          \<and> WZ_init (\<lambda>v. ()) ''2025'' = Inr \<lparr>wz_version = m, wz_data = ()\<rparr>)"
proof -
  have bad: "''2020'' \<notin> {''2008'', ''2025''}" and good: "''2025'' \<in> {''2008'', ''2025''}"
    by simp_all
  from bad good
    invalid_version_raises_version_error[of "''2020''" "\<lambda>v. ()" "\<lambda>w c t. ([] :: string list)"
      "\<lparr>wz_version = WZ_2025, wz_data = ()\<rparr>" "''01.13.1''"]
    invalid_version_raises_version_error[of "''2025''" "\<lambda>v. ()" "\<lambda>w c t. ([] :: string list)"
      "\<lparr>wz_version = WZ_2025, wz_data = ()\<rparr>" "''01.13.1''"]
  show ?thesis by blast
qed

text \<open>
  C10. \<^const>\<open>from_string\<close> and \<^const>\<open>WZVersion_str\<close> are inverse to each other:
  parsing one of the two version strings and converting back gives the string,
  converting a member and parsing gives the member; and every member compares equal
  to its plain version string.
\<close>

theorem from_string_str_round_trip:
  "(\<forall>s \<in> {''2008'', ''2025''}. \<exists>v. from_string s = Inr v \<and> WZVersion_str v = s)
   \<and> (\<forall>v. from_string (WZVersion_str v) = Inr v)
   \<and> (\<forall>v. WZVersion_eq v (WZVersion_str v))
   \<and> WZVersion_eq WZ_2008 ''2008'' \<and> WZVersion_eq WZ_2025 ''2025''"
proof (intro conjI ballI allI)
  fix s :: string
  assume "s \<in> {''2008'', ''2025''}"
  then show "\<exists>v. from_string s = Inr v \<and> WZVersion_str v = s"
    using from_string_valid by (simp only: WZVersion_str_def)
next
  fix v
  show "from_string (WZVersion_str v) = Inr v"
    by (simp add: WZVersion_str_def from_string_value_of)
  show "WZVersion_eq v (WZVersion_str v)"
    by (simp add: WZVersion_eq_def WZVersion_str_def)
next
  show "WZVersion_eq WZ_2008 ''2008''" and "WZVersion_eq WZ_2025 ''2025''"
    by (simp_all add: WZVersion_eq_def)
qed

theorem round_trip_2025_witness:
  "''2025'' \<in> {''2008'', ''2025''}
   \<and> (\<exists>v. from_string ''2025'' = Inr v \<and> WZVersion_str v = ''2025'')
   \<and> from_string (WZVersion_str WZ_2008) = Inr WZ_2008
   \<and> WZVersion_eq WZ_2025 (WZVersion_str WZ_2025)"
proof -
  have "''2025'' \<in> {''2008'', ''2025''}" by simp
  with from_string_str_round_trip show ?thesis by blast
qed

end
